theory Spec2Isabelle
  imports Complex_Main
begin

section \<open>The polyphase filterbank channelizer of liquid-dsp (firpfbch.c)\<close>

text \<open>
  The development embeds \<^verbatim>\<open>src/multicarrier/src/firpfbch.c\<close>. A C \<^verbatim>\<open>float\<close> is
  read as a \<^typ>\<open>real\<close> and a \<^verbatim>\<open>float complex\<close> as a \<^typ>\<open>complex\<close>: everything
  proved below is about which sample and which tap goes where, and none of it depends
  on rounding. An \<^verbatim>\<open>unsigned int\<close> is a \<^typ>\<open>nat\<close> with the 32-bit wrap-around
  written out where the code multiplies; an \<^verbatim>\<open>int\<close> flag is an \<^typ>\<open>int\<close>.
\<close>

subsection \<open>What firpfbch.c takes from liquid.internal.h\<close>

text \<open>
  The file calls into the rest of the library: the four mode constants, the two
  filter designers, the FIR filter object and the transform plan. None of them is
  defined in the file, so they are parameters of the model, collected in one record.
  The type \<open>'f\<close> is the FIR filter object (\<^verbatim>\<open>fir_filter_crcf\<close>).

  \<^item> \<open>fir_kaiser_window e n fc b k\<close> is the tap that
    \<^verbatim>\<open>fir_kaiser_window(n, fc, b, h)\<close> writes to \<^verbatim>\<open>h[k]\<close>;
  \<^item> \<open>design_rrc_filter e k0 m b dt k\<close> is the tap that
    \<^verbatim>\<open>design_rrc_filter(k0, m, b, dt, h)\<close> writes to \<^verbatim>\<open>h[k]\<close>;
  \<^item> \<open>fir_filter_crcf_create e h n\<close> is the filter made from the first \<open>n\<close>
    taps of the array \<open>h\<close>;
  \<^item> \<open>fir_filter_crcf_push e f v\<close> is the filter \<open>f\<close> after the sample \<open>v\<close>
    has been pushed, and \<open>fir_filter_crcf_execute e f\<close> is its current output;
  \<^item> \<open>fft_execute e n X\<close> is what the plan of size \<open>n\<close> and direction
    \<^verbatim>\<open>FFT_REVERSE\<close> (with FFTW: \<^verbatim>\<open>FFTW_BACKWARD\<close>) writes to its output
    buffer when its input buffer holds \<open>X\<close>.
\<close>

record 'f liquid =
  FIRPFBCH_NYQUIST :: int
  FIRPFBCH_ROOTNYQUIST :: int
  FIRPFBCH_ANALYZER :: int
  FIRPFBCH_SYNTHESIZER :: int
  fir_kaiser_window :: "nat \<Rightarrow> real \<Rightarrow> real \<Rightarrow> nat \<Rightarrow> real"
  design_rrc_filter :: "nat \<Rightarrow> nat \<Rightarrow> real \<Rightarrow> real \<Rightarrow> nat \<Rightarrow> real"
  fir_filter_crcf_create :: "real list \<Rightarrow> nat \<Rightarrow> 'f"
  fir_filter_crcf_push :: "'f \<Rightarrow> complex \<Rightarrow> 'f"
  fir_filter_crcf_execute :: "'f \<Rightarrow> complex"
  fft_execute :: "nat \<Rightarrow> complex list \<Rightarrow> complex list"

subsection \<open>The channelizer object\<close>

text \<open>
  \<^verbatim>\<open>struct firpfbch_s\<close>, field by field (\<open>c_m\<close> is \<^verbatim>\<open>c->m\<close>, and so on). The
  plan \<^verbatim>\<open>c->fft\<close> is bound once to \<^verbatim>\<open>(num_channels, X, x)\<close> and holds nothing
  else, so it has no field of its own: executing it is \<open>fft_execute\<close> at
  \<open>c_num_channels\<close> on \<open>c_X\<close>, stored into \<open>c_x\<close>.
\<close>

record 'f firpfbch_s =
  c_num_channels :: nat
  c_m :: nat
  c_beta :: real
  c_x :: "complex list"
  c_X :: "complex list"
  c_bank :: "'f list"
  c_nyquist :: int
  c_type :: int

text \<open>
  The ways \<^verbatim>\<open>firpfbch_create\<close> does not return: the two \<^verbatim>\<open>exit(1)\<close> calls, and
  the unsigned division \<^verbatim>\<open>h_len / c->num_channels\<close> when there is no channel.
\<close>

datatype error = InvalidFilterDelay | UnsupportedNyquistFlag int | DivisionByZero

subsection \<open>firpfbch\_create\<close>

text \<open>\<^verbatim>\<open>h_len = 2*(c->m)*(c->num_channels)\<close>, in 32-bit unsigned arithmetic.\<close>

definition firpfbch_h_len :: "nat \<Rightarrow> nat \<Rightarrow> nat" where
  "firpfbch_h_len nc m = (2 * m * nc) mod 2 ^ 32"

text \<open>
  Lines 57 to 71: the check of the delay, the array \<^verbatim>\<open>float h[h_len+1]\<close> and the
  designer that fills it. The result is the array \<open>h\<close>, cell by cell.
\<close>

definition firpfbch_design :: "'f liquid \<Rightarrow> nat \<Rightarrow> nat \<Rightarrow> real \<Rightarrow> int \<Rightarrow> error + real list" where
  "firpfbch_design e nc m b nyq =
     (if m < 1 then Inl InvalidFilterDelay
      else
        let h_len = firpfbch_h_len nc m in
        if nyq = FIRPFBCH_NYQUIST e then
          (let fc = 1 / real nc in
           Inr (map (fir_kaiser_window e (h_len + 1) fc b) [0..<h_len + 1]))
        else if nyq = FIRPFBCH_ROOTNYQUIST e then
          Inr (map (design_rrc_filter e nc m b 0) [0..<h_len + 1])
        else Inl (UnsupportedNyquistFlag nyq))"

text \<open>
  The inner loops of lines 80 to 82 and 90 to 95. The array \<open>h_sub\<close> is declared once
  and reused for every branch. The indices \<open>i + n * nc\<close> and \<open>i + 1 + n * nc\<close> stay
  at or below \<open>h_len\<close>, which is below \<open>2 ^ 32\<close>, so they do not wrap.
\<close>

definition synthesizer_h_sub :: "real list \<Rightarrow> nat \<Rightarrow> nat \<Rightarrow> nat \<Rightarrow> real list \<Rightarrow> real list" where
  "synthesizer_h_sub h nc h_sub_len i h_sub =
     fold (\<lambda>n hs. hs[n := h ! (i + n * nc)]) [0..<h_sub_len] h_sub"

definition analyzer_h_sub :: "real list \<Rightarrow> nat \<Rightarrow> nat \<Rightarrow> nat \<Rightarrow> real list \<Rightarrow> real list" where
  "analyzer_h_sub h nc h_sub_len i h_sub =
     fold (\<lambda>n hs. hs[n + 1 := h ! (i + 1 + n * nc)]) [0..<h_sub_len] (h_sub[0 := 0])"

text \<open>
  Lines 74 to 98: the bank of sub-sampled filters. The loop state is the scratch array
  \<open>h_sub\<close> and the filters made so far; \<^verbatim>\<open>c->bank[i] = ...\<close> for \<open>i = 0, 1, ...\<close>
  appends to the bank. A fresh variable-length array holds no particular values; the
  model starts it with zeros, and every cell is written before it is handed on.
\<close>

definition firpfbch_create_bank :: "'f liquid \<Rightarrow> nat \<Rightarrow> nat \<Rightarrow> int \<Rightarrow> real list \<Rightarrow> 'f list" where
  "firpfbch_create_bank e nc h_len ty h =
     (if ty = FIRPFBCH_SYNTHESIZER e then
        (let h_sub_len = h_len div nc in
         snd (fold (\<lambda>i (h_sub, bank).
                let h_sub' = synthesizer_h_sub h nc h_sub_len i h_sub
                in (h_sub', bank @ [fir_filter_crcf_create e h_sub' h_sub_len]))
              [0..<nc] (replicate h_sub_len 0, [])))
      else
        (let h_sub_len = h_len div nc in
         snd (fold (\<lambda>i (h_sub, bank).
                let h_sub' = analyzer_h_sub h nc h_sub_len i h_sub
                in (h_sub', bank @ [fir_filter_crcf_create e h_sub' (h_sub_len + 1)]))
              [0..<nc] (replicate (h_sub_len + 1) 0, []))))"

text \<open>
  The whole constructor. The two buffers come from \<^verbatim>\<open>malloc\<close> and hold nothing in
  particular; the model starts them with zeros (lemma \<open>firpfbch_execute_buffers\<close>
  below shows that no call reads what they held before).
\<close>

definition firpfbch_create ::
  "'f liquid \<Rightarrow> nat \<Rightarrow> nat \<Rightarrow> real \<Rightarrow> int \<Rightarrow> int \<Rightarrow> error + 'f firpfbch_s" where
  "firpfbch_create e nc m b nyq ty =
     (case firpfbch_design e nc m b nyq of
        Inl err \<Rightarrow> Inl err
      | Inr h \<Rightarrow>
          if nc = 0 then Inl DivisionByZero
          else Inr \<lparr>c_num_channels = nc, c_m = m, c_beta = b,
                    c_x = replicate nc 0, c_X = replicate nc 0,
                    c_bank = firpfbch_create_bank e nc (firpfbch_h_len nc m) ty h,
                    c_nyquist = nyq, c_type = ty\<rparr>)"

subsection \<open>The two data paths and their dispatch\<close>

text \<open>
  \<^verbatim>\<open>memmove(dst, src, n * sizeof(float complex))\<close>: the first \<open>n\<close> cells of \<open>dst\<close>
  become those of \<open>src\<close>.
\<close>

definition memmove_n :: "'a list \<Rightarrow> 'a list \<Rightarrow> nat \<Rightarrow> 'a list" where
  "memmove_n dst src n = take n src @ drop n dst"

text \<open>
  Each function takes the object, the input array \<open>xin\<close> and the caller's output array
  \<open>yout\<close> as it is before the call, and returns the object and the output array after
  the call.
\<close>

definition firpfbch_synthesizer_execute ::
  "'f liquid \<Rightarrow> 'f firpfbch_s \<Rightarrow> complex list \<Rightarrow> complex list \<Rightarrow> 'f firpfbch_s \<times> complex list" where
  "firpfbch_synthesizer_execute e c xin yout =
     (let nc = c_num_channels c;
          X1 = memmove_n (c_X c) xin nc;
          x1 = fft_execute e nc X1;
          (bank1, y1) =
            fold (\<lambda>i (bank, y).
                let f = fir_filter_crcf_push e (bank ! i) (x1 ! i);
                    y' = y[i := fir_filter_crcf_execute e f];
                    y'' = y'[i := y' ! i / of_nat nc]
                in (bank[i := f], y''))
              [0..<nc] (c_bank c, yout)
      in (c\<lparr>c_x := x1, c_X := X1, c_bank := bank1\<rparr>, y1))"

definition firpfbch_analyzer_execute ::
  "'f liquid \<Rightarrow> 'f firpfbch_s \<Rightarrow> complex list \<Rightarrow> complex list \<Rightarrow> 'f firpfbch_s \<times> complex list" where
  "firpfbch_analyzer_execute e c xin yout =
     (let nc = c_num_channels c;
          (bank1, X1) =
            fold (\<lambda>i (bank, X).
                let b = nc - i - 1;
                    f = fir_filter_crcf_push e (bank ! b) (xin ! i)
                in (bank[b := f], X[i := fir_filter_crcf_execute e f]))
              [0..<nc] (c_bank c, c_X c);
          x1 = fft_execute e nc X1
      in (c\<lparr>c_x := x1, c_X := X1, c_bank := bank1\<rparr>, memmove_n yout x1 nc))"

definition firpfbch_execute ::
  "'f liquid \<Rightarrow> 'f firpfbch_s \<Rightarrow> complex list \<Rightarrow> complex list \<Rightarrow> 'f firpfbch_s \<times> complex list" where
  "firpfbch_execute e c xin yout =
     (if c_type c = FIRPFBCH_ANALYZER e then firpfbch_analyzer_execute e c xin yout
      else firpfbch_synthesizer_execute e c xin yout)"

text \<open>
  A caller that executes one block after another on the same object, each call with its
  own input array and output array, and collects the output arrays.
\<close>

fun firpfbch_run ::
  "'f liquid \<Rightarrow> 'f firpfbch_s \<Rightarrow> (complex list \<times> complex list) list \<Rightarrow> complex list list" where
  "firpfbch_run e c [] = []"
| "firpfbch_run e c ((xin, yout) # calls) =
     (let (c', y) = firpfbch_execute e c xin yout in y # firpfbch_run e c' calls)"

text \<open>
  What \<^verbatim>\<open>firpfbch_create\<close> allocates and every call keeps: a bank and a
  frequency-domain buffer of \<open>num_channels\<close> cells each.
\<close>

definition firpfbch_allocated :: "'f firpfbch_s \<Rightarrow> bool" where
  "firpfbch_allocated c \<longleftrightarrow>
     length (c_bank c) = c_num_channels c \<and> length (c_X c) = c_num_channels c"

text \<open>
  Two objects with the same number of channels, the same mode and the same filters
  (taps and delay lines); the other fields, the two buffers among them, may differ.
\<close>

definition firpfbch_same_filters :: "'f firpfbch_s \<Rightarrow> 'f firpfbch_s \<Rightarrow> bool" where
  "firpfbch_same_filters c1 c2 \<longleftrightarrow>
     c_num_channels c1 = c_num_channels c2 \<and> c_type c1 = c_type c2 \<and> c_bank c1 = c_bank c2"

subsection \<open>An instance of the collaborators\<close>

text \<open>
  The theorems below hold for every value of the record \<open>liquid\<close>. To run the model
  on concrete blocks, the record is filled in once, with the smallest parts that behave
  as the library's do.
\<close>

text \<open>
  Modelled from the spec: the FIR filter primitive \<^verbatim>\<open>fir_filter_crcf\<close>, which is not
  in src/. Section 4.3 gives it taps and a delay line; \<open>fir_w\<close> is the delay line,
  newest sample first.
\<close>

record fir_filter =
  fir_h :: "real list"
  fir_w :: "complex list"

text \<open>
  Modelled from the spec: \<^verbatim>\<open>fir_filter_crcf_create\<close>, not in src/. The filter keeps
  the \<open>n\<close> taps it is given and starts from a delay line of \<open>n\<close> zeros (section 4.7
  calls the state after creation and the state after a reset by one name).
\<close>

definition fir_create :: "real list \<Rightarrow> nat \<Rightarrow> fir_filter" where
  "fir_create h n = \<lparr>fir_h = take n h, fir_w = replicate n 0\<rparr>"

text \<open>
  Modelled from the spec: \<^verbatim>\<open>fir_filter_crcf_push\<close>, not in src/. Section 4.3: pushing
  advances the delay line by one sample and discards the oldest.
\<close>

definition fir_push :: "fir_filter \<Rightarrow> complex \<Rightarrow> fir_filter" where
  "fir_push f v = f\<lparr>fir_w := v # butlast (fir_w f)\<rparr>"

text \<open>
  Modelled from the spec: \<^verbatim>\<open>fir_filter_crcf_execute\<close>, not in src/. Section 4.3:
  executing computes the dot product of the delay line with the taps.
\<close>

definition fir_execute :: "fir_filter \<Rightarrow> complex" where
  "fir_execute f = (\<Sum>(a, v)\<leftarrow>zip (fir_h f) (fir_w f). of_real a * v)"

text \<open>
  Modelled from the spec: the transform of section 4.4, which is not in src/, on the
  block sizes where the inverse discrete Fourier transform needs no trigonometry: a
  block of two points goes to its sum and its difference, a block of one point to
  itself. The instance is run on at most two channels.
\<close>

fun idft_small :: "nat \<Rightarrow> complex list \<Rightarrow> complex list" where
  "idft_small n [a, b] = [a + b, a - b]"
| "idft_small n X = X"

text \<open>
  The instance. Its designers are stand-ins: the tap they write at index \<open>k\<close> is
  \<open>k + 1\<close>, so that a tap's value tells where it came from. Its mode constants are
  0 and 1.
\<close>

definition ref_liquid :: "fir_filter liquid" where
  "ref_liquid =
     \<lparr>FIRPFBCH_NYQUIST = 0, FIRPFBCH_ROOTNYQUIST = 1,
      FIRPFBCH_ANALYZER = 0, FIRPFBCH_SYNTHESIZER = 1,
      fir_kaiser_window = (\<lambda>n fc b k. real (Suc k)),
      design_rrc_filter = (\<lambda>k0 m b dt k. real (Suc k)),
      fir_filter_crcf_create = fir_create,
      fir_filter_crcf_push = fir_push,
      fir_filter_crcf_execute = fir_execute,
      fft_execute = idft_small\<rparr>"


section \<open>The loops in closed form\<close>

text \<open>
  Each loop of the source writes one cell per turn. The lemmas of this section give
  the arrays after the loop, cell by cell.
\<close>

lemma fold_update_upt:
  "k \<le> length hs \<Longrightarrow>
   fold (\<lambda>n hs. hs[n := g n]) [0..<k] hs = map g [0..<k] @ drop k hs"
proof (induction k)
  case 0
  then show ?case by simp
next
  case (Suc k)
  then have "fold (\<lambda>n hs. hs[n := g n]) [0..<Suc k] hs = (map g [0..<k] @ drop k hs)[k := g k]"
    by simp
  also have "\<dots> = map g [0..<Suc k] @ drop (Suc k) hs"
    using Suc.prems by (auto intro!: nth_equalityI simp: nth_append nth_list_update)
  finally show ?case .
qed

lemma fold_update_Suc_upt:
  "k < length hs \<Longrightarrow>
   fold (\<lambda>n hs. hs[Suc n := g n]) [0..<k] (hs[0 := z]) = z # map g [0..<k] @ drop (Suc k) hs"
proof (induction k)
  case 0
  then show ?case by (cases hs) simp_all
next
  case (Suc k)
  then have "fold (\<lambda>n hs. hs[Suc n := g n]) [0..<Suc k] (hs[0 := z])
      = (z # map g [0..<k] @ drop (Suc k) hs)[Suc k := g k]"
    by simp
  also have "\<dots> = z # map g [0..<Suc k] @ drop (Suc (Suc k)) hs"
    using Suc.prems
    by (auto intro!: nth_equalityI simp: nth_append nth_list_update nth_Cons' less_Suc_eq)
  finally show ?case .
qed

lemma synthesizer_h_sub_eq:
  "length h_sub = n \<Longrightarrow>
   synthesizer_h_sub h nc n i h_sub = map (\<lambda>k. h ! (i + k * nc)) [0..<n]"
  by (simp add: synthesizer_h_sub_def fold_update_upt)

lemma analyzer_h_sub_eq:
  "length h_sub = Suc n \<Longrightarrow>
   analyzer_h_sub h nc n i h_sub = 0 # map (\<lambda>k. h ! (i + 1 + k * nc)) [0..<n]"
  by (simp add: analyzer_h_sub_def fold_update_Suc_upt)

lemma fold_bank_upt:
  assumes step: "\<And>i hs. length hs = n \<Longrightarrow> length (sub i hs) = n \<and> sub i hs = br i"
  shows "length hs0 = n \<Longrightarrow>
     fold (\<lambda>i (h_sub, bank). (sub i h_sub, bank @ [mk (sub i h_sub)])) [0..<k] (hs0, [])
       = (if k = 0 then hs0 else br (k - 1), map (\<lambda>i. mk (br i)) [0..<k])"
proof (induction k)
  case 0
  then show ?case by simp
next
  case (Suc k)
  have len: "length (if k = 0 then hs0 else br (k - 1)) = n"
    using Suc.prems step[of hs0 "k - 1"] by auto
  show ?case using Suc step[OF len, of k] by simp
qed

lemma firpfbch_create_bank_synthesizer:
  "ty = FIRPFBCH_SYNTHESIZER e \<Longrightarrow>
   firpfbch_create_bank e nc h_len ty h =
     map (\<lambda>i. fir_filter_crcf_create e
                (map (\<lambda>k. h ! (i + k * nc)) [0..<h_len div nc]) (h_len div nc))
       [0..<nc]"
  unfolding firpfbch_create_bank_def Let_def
  by (subst fold_bank_upt[where n = "h_len div nc"
          and br = "\<lambda>i. map (\<lambda>k. h ! (i + k * nc)) [0..<h_len div nc]"])
     (simp_all add: synthesizer_h_sub_eq)

lemma firpfbch_create_bank_analyzer:
  "ty \<noteq> FIRPFBCH_SYNTHESIZER e \<Longrightarrow>
   firpfbch_create_bank e nc h_len ty h =
     map (\<lambda>i. fir_filter_crcf_create e
                (0 # map (\<lambda>k. h ! (i + 1 + k * nc)) [0..<h_len div nc]) (h_len div nc + 1))
       [0..<nc]"
  unfolding firpfbch_create_bank_def Let_def
  by (subst fold_bank_upt[where n = "Suc (h_len div nc)"
          and br = "\<lambda>i. 0 # map (\<lambda>k. h ! (i + 1 + k * nc)) [0..<h_len div nc]"])
     (simp_all add: analyzer_h_sub_eq)

lemma synthesizer_loop:
  "k \<le> length bank \<Longrightarrow> k \<le> length y \<Longrightarrow>
   fold (\<lambda>i (bank, y).
           let f = push (bank ! i) (x1 ! i);
               y' = y[i := exec f];
               y'' = y'[i := y' ! i / d]
           in (bank[i := f], y''))
        [0..<k] (bank, y)
   = (map (\<lambda>i. push (bank ! i) (x1 ! i)) [0..<k] @ drop k bank,
      map (\<lambda>i. exec (push (bank ! i) (x1 ! i)) / d) [0..<k] @ drop k y)"
proof (induction k)
  case 0
  then show ?case by simp
next
  case (Suc k)
  have a: "(map f [0..<k] @ drop k zs)[k := v] = map f [0..<k] @ v # drop (Suc k) zs"
    if "k < length zs" for f :: "nat \<Rightarrow> 'z" and zs v
    using that by (auto intro!: nth_equalityI simp: nth_append nth_list_update nth_Cons' less_Suc_eq)
  have b: "(map f [0..<k] @ drop k zs) ! k = zs ! k"
    if "k < length zs" for f :: "nat \<Rightarrow> 'z" and zs
    using that by (simp add: nth_append)
  have b': "(map f [0..<k] @ v # zs) ! k = v" for f :: "nat \<Rightarrow> 'z" and zs v
    by (simp add: nth_append)
  show ?case using Suc by (simp add: Let_def a b b')
qed

lemma analyzer_loop:
  "length bank = nc \<Longrightarrow> k \<le> nc \<Longrightarrow> k \<le> length X \<Longrightarrow>
   fold (\<lambda>i (bank, X).
           let b = nc - i - 1;
               f = push (bank ! b) (xin ! i)
           in (bank[b := f], X[i := exec f]))
        [0..<k] (bank, X)
   = (take (nc - k) bank @ map (\<lambda>b. push (bank ! b) (xin ! (nc - 1 - b))) [nc - k..<nc],
      map (\<lambda>i. exec (push (bank ! (nc - 1 - i)) (xin ! i))) [0..<k] @ drop k X)"
proof (induction k)
  case 0
  then show ?case by simp
next
  case (Suc k)
  have a: "(map f [0..<k] @ drop k zs)[k := v] = map f [0..<k] @ v # drop (Suc k) zs"
    if "k < length zs" for f :: "nat \<Rightarrow> 'z" and zs v
    using that by (auto intro!: nth_equalityI simp: nth_append nth_list_update nth_Cons' less_Suc_eq)
  have lt: "nc - Suc k < nc - k" using Suc.prems by arith
  have b: "(take (nc - k) bank @ ys) ! (nc - Suc k) = bank ! (nc - Suc k)" for ys
    using lt Suc.prems by (simp add: nth_append)
  have c: "(take (nc - k) bank @ map g [nc - k..<nc])[nc - Suc k := v]
      = take (nc - Suc k) bank @ v # map g [nc - k..<nc]" for g v
    using Suc.prems
    by (auto intro!: nth_equalityI simp: nth_append nth_list_update nth_Cons' less_Suc_eq)
  have d: "[nc - Suc k..<nc] = (nc - Suc k) # [nc - k..<nc]"
    using Suc.prems by (simp add: upt_conv_Cons Suc_diff_Suc)
  have e: "nc - Suc (nc - Suc k) = k" using Suc.prems by simp
  show ?case
    apply (subst d)
    using Suc by (simp add: Let_def a b c e)
qed

lemma firpfbch_create_bank_length: "length (firpfbch_create_bank e nc h_len ty h) = nc"
  by (cases "ty = FIRPFBCH_SYNTHESIZER e")
     (simp_all add: firpfbch_create_bank_synthesizer firpfbch_create_bank_analyzer)


section \<open>The prototype filter and its indices\<close>

lemma firpfbch_h_len_small: "2 * m * nc < 2 ^ 32 \<Longrightarrow> firpfbch_h_len nc m = 2 * m * nc"
  by (simp add: firpfbch_h_len_def)

lemma tap_index_less: "i < nc \<Longrightarrow> k < n \<Longrightarrow> i + k * nc < n * (nc::nat)"
proof -
  assume "i < nc" "k < n"
  then have "i + k * nc < Suc k * nc" by simp
  also have "\<dots> \<le> n * nc" using \<open>k < n\<close> by (intro mult_le_mono1) simp
  finally show ?thesis .
qed

lemma firpfbch_design_length_aux:
  "firpfbch_design e nc m b nyq = Inr h \<Longrightarrow> length h = firpfbch_h_len nc m + 1"
  by (auto simp: firpfbch_design_def Let_def split: if_splits)

lemma firpfbch_design_succeeds:
  "1 \<le> m \<Longrightarrow> nyq = FIRPFBCH_NYQUIST e \<or> nyq = FIRPFBCH_ROOTNYQUIST e \<Longrightarrow>
   \<exists>h. firpfbch_design e nc m b nyq = Inr h"
  by (auto simp: firpfbch_design_def Let_def)

lemma firpfbch_create_Inr:
  "firpfbch_design e nc m b nyq = Inr h \<Longrightarrow> 0 < nc \<Longrightarrow>
   firpfbch_create e nc m b nyq ty =
     Inr \<lparr>c_num_channels = nc, c_m = m, c_beta = b,
          c_x = replicate nc 0, c_X = replicate nc 0,
          c_bank = firpfbch_create_bank e nc (firpfbch_h_len nc m) ty h,
          c_nyquist = nyq, c_type = ty\<rparr>"
  by (simp add: firpfbch_create_def)

lemma firpfbch_create_bank_synthesizer_cong:
  assumes "ty = FIRPFBCH_SYNTHESIZER e"
    and "\<And>i n. i < nc \<Longrightarrow> n < h_len div nc \<Longrightarrow> h' ! (i + n * nc) = h ! (i + n * nc)"
  shows "firpfbch_create_bank e nc h_len ty h' = firpfbch_create_bank e nc h_len ty h"
  unfolding firpfbch_create_bank_synthesizer[OF assms(1)]
  by (intro map_cong refl arg_cong2[where f = "fir_filter_crcf_create e"])
     (simp_all add: assms(2))

lemma firpfbch_create_bank_analyzer_cong:
  assumes "ty \<noteq> FIRPFBCH_SYNTHESIZER e"
    and "\<And>i n. i < nc \<Longrightarrow> n < h_len div nc \<Longrightarrow> h' ! (i + 1 + n * nc) = h ! (i + 1 + n * nc)"
  shows "firpfbch_create_bank e nc h_len ty h' = firpfbch_create_bank e nc h_len ty h"
  unfolding firpfbch_create_bank_analyzer[OF assms(1)]
  by (intro map_cong refl arg_cong2[where f = "fir_filter_crcf_create e"] arg_cong2[where f = Cons])
     (use assms(2) in simp_all)

section \<open>The two data paths in closed form\<close>

lemma firpfbch_synthesizer_execute_eq:
  assumes "length (c_bank c) = c_num_channels c" and "length yout = c_num_channels c"
  shows "firpfbch_synthesizer_execute e c xin yout =
     (c\<lparr>c_x := fft_execute e (c_num_channels c) (memmove_n (c_X c) xin (c_num_channels c)),
        c_X := memmove_n (c_X c) xin (c_num_channels c),
        c_bank := map (\<lambda>i. fir_filter_crcf_push e (c_bank c ! i)
                    (fft_execute e (c_num_channels c) (memmove_n (c_X c) xin (c_num_channels c)) ! i))
                  [0..<c_num_channels c]\<rparr>,
      map (\<lambda>i. fir_filter_crcf_execute e (fir_filter_crcf_push e (c_bank c ! i)
                    (fft_execute e (c_num_channels c) (memmove_n (c_X c) xin (c_num_channels c)) ! i))
                / of_nat (c_num_channels c))
          [0..<c_num_channels c])"
  unfolding firpfbch_synthesizer_execute_def Let_def
  by (subst synthesizer_loop[unfolded Let_def]) (simp_all add: assms)

lemma firpfbch_analyzer_execute_eq:
  assumes "length (c_bank c) = c_num_channels c" and "length (c_X c) = c_num_channels c"
  shows "firpfbch_analyzer_execute e c xin yout =
     (c\<lparr>c_x := fft_execute e (c_num_channels c)
                 (map (\<lambda>i. fir_filter_crcf_execute e
                        (fir_filter_crcf_push e (c_bank c ! (c_num_channels c - 1 - i)) (xin ! i)))
                    [0..<c_num_channels c]),
        c_X := map (\<lambda>i. fir_filter_crcf_execute e
                        (fir_filter_crcf_push e (c_bank c ! (c_num_channels c - 1 - i)) (xin ! i)))
                 [0..<c_num_channels c],
        c_bank := map (\<lambda>b. fir_filter_crcf_push e (c_bank c ! b) (xin ! (c_num_channels c - 1 - b)))
                    [0..<c_num_channels c]\<rparr>,
      memmove_n yout
        (fft_execute e (c_num_channels c)
           (map (\<lambda>i. fir_filter_crcf_execute e
                        (fir_filter_crcf_push e (c_bank c ! (c_num_channels c - 1 - i)) (xin ! i)))
              [0..<c_num_channels c]))
        (c_num_channels c))"
  unfolding firpfbch_analyzer_execute_def Let_def
  by (subst analyzer_loop[where nc = "c_num_channels c", unfolded Let_def]) (simp_all add: assms)

lemma memmove_n_all: "length src = n \<Longrightarrow> length dst = n \<Longrightarrow> memmove_n dst src n = src"
  by (simp add: memmove_n_def)

lemma firpfbch_execute_buffers:
  assumes "firpfbch_same_filters c1 c2" and "firpfbch_allocated c1" and "firpfbch_allocated c2"
    and "length xin = c_num_channels c1"
    and "length yout1 = c_num_channels c1" and "length yout2 = c_num_channels c1"
  shows "snd (firpfbch_execute e c1 xin yout1) = snd (firpfbch_execute e c2 xin yout2) \<and>
     firpfbch_same_filters (fst (firpfbch_execute e c1 xin yout1)) (fst (firpfbch_execute e c2 xin yout2)) \<and>
     firpfbch_allocated (fst (firpfbch_execute e c1 xin yout1)) \<and>
     firpfbch_allocated (fst (firpfbch_execute e c2 xin yout2)) \<and>
     c_num_channels (fst (firpfbch_execute e c1 xin yout1)) = c_num_channels c1"
proof -
  have eq: "c_num_channels c2 = c_num_channels c1" "c_type c2 = c_type c1" "c_bank c2 = c_bank c1"
    using assms(1) by (simp_all add: firpfbch_same_filters_def)
  have l1: "length (c_bank c1) = c_num_channels c1" "length (c_X c1) = c_num_channels c1"
    using assms(2) by (simp_all add: firpfbch_allocated_def)
  have l2: "length (c_bank c2) = c_num_channels c2" "length (c_X c2) = c_num_channels c2"
    using assms(3) by (simp_all add: firpfbch_allocated_def)
  show ?thesis
  proof (cases "c_type c1 = FIRPFBCH_ANALYZER e")
    case True
    then show ?thesis
      using eq l1 l2 assms(4-6)
      by (simp add: firpfbch_execute_def firpfbch_analyzer_execute_eq
          firpfbch_same_filters_def firpfbch_allocated_def memmove_n_def)
  next
    case False
    then show ?thesis
      using eq l1 l2 assms(4-6)
      by (simp add: firpfbch_execute_def firpfbch_synthesizer_execute_eq
          firpfbch_same_filters_def firpfbch_allocated_def memmove_n_all)
  qed
qed

section \<open>Running the instance\<close>

lemma replicate_2: "replicate 2 v = [v, v]"
  by (simp add: numeral_2_eq_2)

lemma replicate_3: "replicate 3 v = [v, v, v]"
  by (simp add: numeral_3_eq_3)

lemmas run_simps = Let_def upt_conv_Cons replicate_2 replicate_3 memmove_n_def
  ref_liquid_def fir_create_def fir_push_def fir_execute_def
  firpfbch_h_len_def firpfbch_design_def
  firpfbch_create_def firpfbch_create_bank_def synthesizer_h_sub_def analyzer_h_sub_def
  firpfbch_execute_def firpfbch_synthesizer_execute_def firpfbch_analyzer_execute_def


section \<open>The claims\<close>

text \<open>
  Claim C1. For a channelizer in Synthesizer mode, one call of \<^verbatim>\<open>firpfbch_execute\<close> on
  a block of \<open>M\<close> symbols copies the block into the frequency buffer \<open>X\<close>, runs the
  transform from \<open>X\<close> into the time buffer \<open>x\<close>, and then, for each \<open>i < M\<close>, pushes
  \<open>x[i]\<close> into filter \<open>i\<close>, executes that filter and divides its output by \<open>M\<close> to
  give \<open>y[i]\<close>. The call reads \<open>M\<close> symbols and writes \<open>M\<close> samples, and leaves the
  configuration as it was. Nothing but the filters is carried from call to call: an
  object with the same filters and any other buffers gives the same output and the same
  filters afterwards.
\<close>

theorem firpfbch_execute_synthesizer:
  assumes "c_type c = FIRPFBCH_SYNTHESIZER e"
    and "FIRPFBCH_SYNTHESIZER e \<noteq> FIRPFBCH_ANALYZER e"
    and "firpfbch_allocated c"
    and "length xin = c_num_channels c" and "length yout = c_num_channels c"
  shows "\<exists>c' y. firpfbch_execute e c xin yout = (c', y) \<and>
     c_X c' = xin \<and>
     c_x c' = fft_execute e (c_num_channels c) (c_X c') \<and>
     length (c_bank c') = c_num_channels c \<and> length y = c_num_channels c \<and>
     (\<forall>i < c_num_channels c.
        c_bank c' ! i = fir_filter_crcf_push e (c_bank c ! i) (c_x c' ! i) \<and>
        y ! i = fir_filter_crcf_execute e (c_bank c' ! i) / of_nat (c_num_channels c)) \<and>
     c_num_channels c' = c_num_channels c \<and> c_m c' = c_m c \<and> c_beta c' = c_beta c \<and>
     c_nyquist c' = c_nyquist c \<and> c_type c' = c_type c \<and>
     (\<forall>c2 yout2. firpfbch_same_filters c c2 \<and> firpfbch_allocated c2 \<and>
          length yout2 = c_num_channels c \<longrightarrow>
        snd (firpfbch_execute e c2 xin yout2) = y \<and>
        c_bank (fst (firpfbch_execute e c2 xin yout2)) = c_bank c')"
proof -
  have l: "length (c_bank c) = c_num_channels c" "length (c_X c) = c_num_channels c"
    using assms(3) by (simp_all add: firpfbch_allocated_def)
  have ex: "firpfbch_execute e c xin yout = firpfbch_synthesizer_execute e c xin yout"
    using assms(1,2) by (simp add: firpfbch_execute_def)
  have X: "memmove_n (c_X c) xin (c_num_channels c) = xin"
    using l(2) assms(4) by (simp add: memmove_n_all)
  let ?x = "fft_execute e (c_num_channels c) xin"
  let ?bank = "map (\<lambda>i. fir_filter_crcf_push e (c_bank c ! i) (?x ! i)) [0..<c_num_channels c]"
  let ?c' = "c\<lparr>c_x := ?x, c_X := xin, c_bank := ?bank\<rparr>"
  let ?y = "map (\<lambda>i. fir_filter_crcf_execute e (fir_filter_crcf_push e (c_bank c ! i) (?x ! i))
                  / of_nat (c_num_channels c)) [0..<c_num_channels c]"
  have cy: "firpfbch_execute e c xin yout = (?c', ?y)"
    using ex l X assms(5) by (simp add: firpfbch_synthesizer_execute_eq)
  have frame: "snd (firpfbch_execute e c2 xin yout2) = ?y \<and>
        c_bank (fst (firpfbch_execute e c2 xin yout2)) = c_bank ?c'"
    if "firpfbch_same_filters c c2" "firpfbch_allocated c2" "length yout2 = c_num_channels c"
    for c2 yout2
  proof -
    note both = firpfbch_execute_buffers[OF that(1) assms(3) that(2) assms(4,5) that(3), of e]
    have "snd (firpfbch_execute e c2 xin yout2) = snd (firpfbch_execute e c xin yout)"
      using both by simp
    moreover have "c_bank (fst (firpfbch_execute e c2 xin yout2))
        = c_bank (fst (firpfbch_execute e c xin yout))"
      using both by (simp add: firpfbch_same_filters_def)
    ultimately show ?thesis
      by (simp add: cy)
  qed
  have cells: "c_bank ?c' ! i = fir_filter_crcf_push e (c_bank c ! i) (c_x ?c' ! i) \<and>
        ?y ! i = fir_filter_crcf_execute e (c_bank ?c' ! i) / of_nat (c_num_channels c)"
    if "i < c_num_channels c" for i
    using that by simp
  show ?thesis
    apply (rule exI[of _ ?c'], rule exI[of _ ?y])
    apply (intro conjI allI impI)
    subgoal by (rule cy)
    subgoal by simp
    subgoal by simp
    subgoal by simp
    subgoal by simp
    subgoal for i using cells by blast
    subgoal for i using cells by blast
    subgoal by simp
    subgoal by simp
    subgoal by simp
    subgoal by simp
    subgoal by simp
    subgoal for c2 yout2 using frame by blast
    subgoal for c2 yout2 using frame by blast
    done
qed

text \<open>
  The theorem on two channels, with delay lines \<open>[5, 0]\<close> and \<open>[0, 7]\<close> and the
  block \<open>[1, 0]\<close>: the transform gives \<open>[1, 1]\<close>, the filters give 16 and 2, and the
  output is \<open>[8, 1]\<close>.
\<close>

theorem firpfbch_execute_synthesizer_witness:
  "c_type \<lparr>c_num_channels = 2, c_m = 1, c_beta = 3 / 10, c_x = [0, 0], c_X = [0, 0],
      c_bank = [\<lparr>fir_h = [1, 3], fir_w = [5, 0]\<rparr>, \<lparr>fir_h = [2, 4], fir_w = [0, 7]\<rparr>],
      c_nyquist = 0, c_type = 1\<rparr> = FIRPFBCH_SYNTHESIZER ref_liquid \<and>
   FIRPFBCH_SYNTHESIZER ref_liquid \<noteq> FIRPFBCH_ANALYZER ref_liquid \<and>
   firpfbch_allocated \<lparr>c_num_channels = 2, c_m = 1, c_beta = 3 / 10, c_x = [0, 0], c_X = [0, 0],
      c_bank = [\<lparr>fir_h = [1, 3], fir_w = [5, 0]\<rparr>, \<lparr>fir_h = [2, 4], fir_w = [0, 7]\<rparr>],
      c_nyquist = 0, c_type = 1\<rparr> \<and>
   length [1, 0 :: complex] = 2 \<and> length [0, 0 :: complex] = 2 \<and>
   firpfbch_execute ref_liquid
     \<lparr>c_num_channels = 2, c_m = 1, c_beta = 3 / 10, c_x = [0, 0], c_X = [0, 0],
      c_bank = [\<lparr>fir_h = [1, 3], fir_w = [5, 0]\<rparr>, \<lparr>fir_h = [2, 4], fir_w = [0, 7]\<rparr>],
      c_nyquist = 0, c_type = 1\<rparr> [1, 0] [0, 0] =
     (\<lparr>c_num_channels = 2, c_m = 1, c_beta = 3 / 10, c_x = [1, 1], c_X = [1, 0],
       c_bank = [\<lparr>fir_h = [1, 3], fir_w = [1, 5]\<rparr>, \<lparr>fir_h = [2, 4], fir_w = [1, 0]\<rparr>],
       c_nyquist = 0, c_type = 1\<rparr>, [8, 1])"
  using firpfbch_execute_synthesizer[of
      "\<lparr>c_num_channels = 2, c_m = 1, c_beta = 3 / 10, c_x = [0, 0], c_X = [0, 0],
        c_bank = [\<lparr>fir_h = [1, 3], fir_w = [5, 0]\<rparr>, \<lparr>fir_h = [2, 4], fir_w = [0, 7]\<rparr>],
        c_nyquist = 0, c_type = 1\<rparr>" ref_liquid "[1, 0]" "[0, 0]"]
  by (simp add: run_simps firpfbch_allocated_def)

text \<open>
  Claim C2. For a channelizer in Analyzer mode, one call of \<^verbatim>\<open>firpfbch_execute\<close> on a
  block of \<open>M\<close> samples pushes, for each \<open>i < M\<close>, the sample \<open>xin[i]\<close> into filter
  \<open>b = M - 1 - i\<close> and stores that filter's output at \<open>X[i]\<close>; it then runs the
  transform from \<open>X\<close> into \<open>x\<close> and returns \<open>x[0..M)\<close> as the output block. No
  value is scaled on the way.
\<close>

theorem firpfbch_execute_analyzer:
  assumes "c_type c = FIRPFBCH_ANALYZER e"
    and "firpfbch_allocated c"
    and "length xin = c_num_channels c" and "length yout = c_num_channels c"
  shows "\<exists>c' y. firpfbch_execute e c xin yout = (c', y) \<and>
     length (c_bank c') = c_num_channels c \<and> length (c_X c') = c_num_channels c \<and>
     (\<forall>i < c_num_channels c.
        c_bank c' ! (c_num_channels c - 1 - i) =
          fir_filter_crcf_push e (c_bank c ! (c_num_channels c - 1 - i)) (xin ! i) \<and>
        c_X c' ! i = fir_filter_crcf_execute e (c_bank c' ! (c_num_channels c - 1 - i))) \<and>
     c_x c' = fft_execute e (c_num_channels c) (c_X c') \<and>
     y = take (c_num_channels c) (c_x c') \<and>
     c_num_channels c' = c_num_channels c \<and> c_m c' = c_m c \<and> c_beta c' = c_beta c \<and>
     c_nyquist c' = c_nyquist c \<and> c_type c' = c_type c"
proof -
  let ?nc = "c_num_channels c"
  have l: "length (c_bank c) = ?nc" "length (c_X c) = ?nc"
    using assms(2) by (simp_all add: firpfbch_allocated_def)
  let ?X = "map (\<lambda>i. fir_filter_crcf_execute e
                        (fir_filter_crcf_push e (c_bank c ! (?nc - 1 - i)) (xin ! i))) [0..<?nc]"
  let ?bank = "map (\<lambda>b. fir_filter_crcf_push e (c_bank c ! b) (xin ! (?nc - 1 - b))) [0..<?nc]"
  let ?c' = "c\<lparr>c_x := fft_execute e ?nc ?X, c_X := ?X, c_bank := ?bank\<rparr>"
  let ?y = "take ?nc (fft_execute e ?nc ?X)"
  have cy: "firpfbch_execute e c xin yout = (?c', ?y)"
    using assms(1,4) l by (simp add: firpfbch_execute_def firpfbch_analyzer_execute_eq memmove_n_def)
  have cells: "c_bank ?c' ! (?nc - 1 - i) =
          fir_filter_crcf_push e (c_bank c ! (?nc - 1 - i)) (xin ! i) \<and>
        c_X ?c' ! i = fir_filter_crcf_execute e (c_bank ?c' ! (?nc - 1 - i))"
    if "i < ?nc" for i
  proof -
    have "?nc - 1 - i < ?nc" and "?nc - 1 - (?nc - 1 - i) = i"
      using that by simp_all
    then show ?thesis using that by simp
  qed
  show ?thesis
    apply (rule exI[of _ ?c'], rule exI[of _ ?y])
    apply (intro conjI allI impI)
    subgoal by (rule cy)
    subgoal by simp
    subgoal by simp
    subgoal for i using cells by blast
    subgoal for i using cells by blast
    subgoal by simp
    subgoal by simp
    subgoal by simp
    subgoal by simp
    subgoal by simp
    subgoal by simp
    subgoal by simp
    done
qed

text \<open>
  The theorem on two channels with the block \<open>[10, 20]\<close>: the sample 10 goes to
  filter 1 and the sample 20 to filter 0; the filter outputs are \<open>[6, 2]\<close> and the
  output block is their transform \<open>[8, 4]\<close>.
\<close>

theorem firpfbch_execute_analyzer_witness:
  "c_type \<lparr>c_num_channels = 2, c_m = 1, c_beta = 3 / 10, c_x = [0, 0], c_X = [0, 0],
      c_bank = [\<lparr>fir_h = [0, 2, 4], fir_w = [1, 0, 0]\<rparr>, \<lparr>fir_h = [0, 3, 5], fir_w = [2, 0, 0]\<rparr>],
      c_nyquist = 0, c_type = 0\<rparr> = FIRPFBCH_ANALYZER ref_liquid \<and>
   firpfbch_allocated \<lparr>c_num_channels = 2, c_m = 1, c_beta = 3 / 10, c_x = [0, 0], c_X = [0, 0],
      c_bank = [\<lparr>fir_h = [0, 2, 4], fir_w = [1, 0, 0]\<rparr>, \<lparr>fir_h = [0, 3, 5], fir_w = [2, 0, 0]\<rparr>],
      c_nyquist = 0, c_type = 0\<rparr> \<and>
   length [10, 20 :: complex] = 2 \<and> length [0, 0 :: complex] = 2 \<and>
   firpfbch_execute ref_liquid
     \<lparr>c_num_channels = 2, c_m = 1, c_beta = 3 / 10, c_x = [0, 0], c_X = [0, 0],
      c_bank = [\<lparr>fir_h = [0, 2, 4], fir_w = [1, 0, 0]\<rparr>, \<lparr>fir_h = [0, 3, 5], fir_w = [2, 0, 0]\<rparr>],
      c_nyquist = 0, c_type = 0\<rparr> [10, 20] [0, 0] =
     (\<lparr>c_num_channels = 2, c_m = 1, c_beta = 3 / 10, c_x = [8, 4], c_X = [6, 2],
       c_bank = [\<lparr>fir_h = [0, 2, 4], fir_w = [20, 1, 0]\<rparr>, \<lparr>fir_h = [0, 3, 5], fir_w = [10, 2, 0]\<rparr>],
       c_nyquist = 0, c_type = 0\<rparr>, [8, 4])"
  using firpfbch_execute_analyzer[of
      "\<lparr>c_num_channels = 2, c_m = 1, c_beta = 3 / 10, c_x = [0, 0], c_X = [0, 0],
        c_bank = [\<lparr>fir_h = [0, 2, 4], fir_w = [1, 0, 0]\<rparr>, \<lparr>fir_h = [0, 3, 5], fir_w = [2, 0, 0]\<rparr>],
        c_nyquist = 0, c_type = 0\<rparr>" ref_liquid "[10, 20]" "[0, 0]"]
  by (simp add: run_simps firpfbch_allocated_def)

text \<open>
  Claim C3, as amended. For every valid configuration (\<open>m \<ge> 1\<close>, at least one
  channel, a recognised kind) whose nominal length \<open>L = 2 * m * M\<close> is below
  \<open>2 ^ 32\<close>, and with the analyzer and synthesizer constants two different values,
  \<^verbatim>\<open>firpfbch_create\<close> designs a prototype \<open>h\<close> and returns an object with \<open>M\<close>
  filters. In Synthesizer mode the filter of each branch \<open>i < M\<close> is created from
  \<open>L / M\<close> taps with \<open>branch[n] = h[i + n * M]\<close>; in Analyzer mode it is created from
  \<open>L / M + 1\<close> taps with \<open>branch[0] = 0\<close> and \<open>branch[n + 1] = h[i + 1 + n * M]\<close>;
  so all \<open>M\<close> branches of one object have the same length.
\<close>

theorem firpfbch_create_branches:
  assumes "1 \<le> m" and "0 < nc" and "2 * m * nc < 2 ^ 32"
    and "nyq = FIRPFBCH_NYQUIST e \<or> nyq = FIRPFBCH_ROOTNYQUIST e"
    and "FIRPFBCH_ANALYZER e \<noteq> FIRPFBCH_SYNTHESIZER e"
  shows "\<exists>h c. firpfbch_design e nc m b nyq = Inr h \<and>
           firpfbch_create e nc m b nyq ty = Inr c \<and> length (c_bank c) = nc \<and>
           (ty = FIRPFBCH_SYNTHESIZER e \<longrightarrow>
              (\<forall>i<nc. \<exists>branch. c_bank c ! i = fir_filter_crcf_create e branch (2 * m * nc div nc) \<and>
                 length branch = 2 * m * nc div nc \<and>
                 (\<forall>n < 2 * m * nc div nc. branch ! n = h ! (i + n * nc)))) \<and>
           (ty = FIRPFBCH_ANALYZER e \<longrightarrow>
              (\<forall>i<nc. \<exists>branch. c_bank c ! i = fir_filter_crcf_create e branch (2 * m * nc div nc + 1) \<and>
                 length branch = 2 * m * nc div nc + 1 \<and> branch ! 0 = 0 \<and>
                 (\<forall>n < 2 * m * nc div nc. branch ! (n + 1) = h ! (i + 1 + n * nc))))"
proof -
  obtain h where h: "firpfbch_design e nc m b nyq = Inr h"
    using firpfbch_design_succeeds[OF assms(1,4)] by blast
  let ?L = "2 * m * nc"
  let ?bank = "firpfbch_create_bank e nc ?L ty h"
  let ?c = "\<lparr>c_num_channels = nc, c_m = m, c_beta = b, c_x = replicate nc 0,
             c_X = replicate nc 0, c_bank = ?bank, c_nyquist = nyq, c_type = ty\<rparr>"
  have c: "firpfbch_create e nc m b nyq ty = Inr ?c"
    using firpfbch_create_Inr[OF h assms(2)] firpfbch_h_len_small[OF assms(3)] by simp
  have len: "length (c_bank ?c) = nc"
    by (simp add: firpfbch_create_bank_length)
  have syn: "\<exists>branch. c_bank ?c ! i = fir_filter_crcf_create e branch (?L div nc) \<and>
       length branch = ?L div nc \<and> (\<forall>n < ?L div nc. branch ! n = h ! (i + n * nc))"
    if "ty = FIRPFBCH_SYNTHESIZER e" "i < nc" for i
    using that
    by (intro exI[of _ "map (\<lambda>k. h ! (i + k * nc)) [0..<?L div nc]"])
       (simp add: firpfbch_create_bank_synthesizer)
  have ana: "\<exists>branch. c_bank ?c ! i = fir_filter_crcf_create e branch (?L div nc + 1) \<and>
       length branch = ?L div nc + 1 \<and> branch ! 0 = 0 \<and>
       (\<forall>n < ?L div nc. branch ! (n + 1) = h ! (i + 1 + n * nc))"
    if "ty = FIRPFBCH_ANALYZER e" "i < nc" for i
    using that assms(5)
    by (intro exI[of _ "0 # map (\<lambda>k. h ! (i + 1 + k * nc)) [0..<?L div nc]"])
       (simp add: firpfbch_create_bank_analyzer)
  show ?thesis
    using h c len syn ana by blast
qed

text \<open>
  The theorem at two channels and delay 1, where the prototype of the instance is
  \<open>[1, 2, 3, 4, 5]\<close>: the synthesizer branches are \<open>[1, 3]\<close> and \<open>[2, 4]\<close>, the
  analyzer branches \<open>[0, 2, 4]\<close> and \<open>[0, 3, 5]\<close>.
\<close>

theorem firpfbch_create_branches_witness:
  "(1::nat) \<le> 1 \<and> (0::nat) < 2 \<and> (2 * 1 * 2 :: nat) < 2 ^ 32 \<and>
   FIRPFBCH_ANALYZER ref_liquid \<noteq> FIRPFBCH_SYNTHESIZER ref_liquid \<and>
   firpfbch_design ref_liquid 2 1 (3 / 10) 0 = Inr [1, 2, 3, 4, 5] \<and>
   map_sum id c_bank (firpfbch_create ref_liquid 2 1 (3 / 10) 0 1) =
     Inr [fir_create [1, 3] 2, fir_create [2, 4] 2] \<and>
   map_sum id c_bank (firpfbch_create ref_liquid 2 1 (3 / 10) 0 0) =
     Inr [fir_create [0, 2, 4] 3, fir_create [0, 3, 5] 3]"
  using firpfbch_create_branches[of 1 2 0 ref_liquid "3 / 10" 1]
    firpfbch_create_branches[of 1 2 0 ref_liquid "3 / 10" 0]
  by (simp add: run_simps)

text \<open>
  The claim as the spec states it holds for every valid configuration. The source
  computes \<^verbatim>\<open>h_len = 2*m*M\<close> in \<^verbatim>\<open>unsigned int\<close>: at two channels and delay
  \<open>2 ^ 31\<close>, a configuration \<^verbatim>\<open>firpfbch_create\<close> accepts, \<^verbatim>\<open>h_len\<close> wraps to 0
  and every branch is created from no tap (Synthesizer) or from the inserted zero alone
  (Analyzer), not from \<open>L / M = 2 ^ 32\<close> taps.
\<close>

theorem firpfbch_create_branches_counterexample:
  "firpfbch_create ref_liquid 2 2147483648 (3 / 10) 0 (FIRPFBCH_SYNTHESIZER ref_liquid) =
     Inr \<lparr>c_num_channels = 2, c_m = 2147483648, c_beta = 3 / 10, c_x = [0, 0], c_X = [0, 0],
          c_bank = [\<lparr>fir_h = [], fir_w = []\<rparr>, \<lparr>fir_h = [], fir_w = []\<rparr>],
          c_nyquist = 0, c_type = 1\<rparr> \<and>
   length ([] :: real list) \<noteq> 2 * 2147483648 * 2 div 2 \<and>
   firpfbch_create ref_liquid 2 2147483648 (3 / 10) 0 (FIRPFBCH_ANALYZER ref_liquid) =
     Inr \<lparr>c_num_channels = 2, c_m = 2147483648, c_beta = 3 / 10, c_x = [0, 0], c_X = [0, 0],
          c_bank = [\<lparr>fir_h = [0], fir_w = [0]\<rparr>, \<lparr>fir_h = [0], fir_w = [0]\<rparr>],
          c_nyquist = 0, c_type = 0\<rparr> \<and>
   length [0 :: real] \<noteq> 2 * 2147483648 * 2 div 2 + 1"
  by (simp add: run_simps)

text \<open>
  Claim C4, as amended. For every configuration with \<open>m \<ge> 1\<close>, a recognised filter
  kind and \<open>2 * m * M\<close> within 32 bits, the prototype that \<^verbatim>\<open>firpfbch_create\<close>
  designs is a sequence of exactly \<open>2 * m * M + 1\<close> real taps, one more than the nominal
  length \<open>L = 2 * m * M\<close>; the length is the same for the Nyquist and the root-Nyquist
  kind; and the taps are a function of \<open>(M, m, beta, kind)\<close> and the two designers
  alone (the mode plays no part in \<open>firpfbch_design\<close>).
\<close>

theorem firpfbch_design_length:
  assumes "1 \<le> m" and "2 * m * nc < 2 ^ 32"
    and "nyq = FIRPFBCH_NYQUIST e \<or> nyq = FIRPFBCH_ROOTNYQUIST e"
  shows "\<exists>h. firpfbch_design e nc m b nyq = Inr h \<and> length h = 2 * m * nc + 1"
proof -
  obtain h where h: "firpfbch_design e nc m b nyq = Inr h"
    using firpfbch_design_succeeds[OF assms(1,3)] by blast
  then have "length h = 2 * m * nc + 1"
    using firpfbch_design_length_aux[OF h] firpfbch_h_len_small[OF assms(2)] by simp
  with h show ?thesis by blast
qed

text \<open>The theorem at two channels and delay 1, for the root-Nyquist kind.\<close>

theorem firpfbch_design_length_witness:
  "(1::nat) \<le> 1 \<and> (2 * 1 * 2 :: nat) < 2 ^ 32
   \<and> (\<exists>h. firpfbch_design ref_liquid 2 1 (3 / 10) 1 = Inr h \<and> length h = 2 * 1 * 2 + 1)"
  using firpfbch_design_length[of 1 2 1 ref_liquid "3 / 10"] by (simp add: ref_liquid_def)

text \<open>
  The claim as the spec states it gives the prototype exactly \<open>L = 2 * m * M\<close> taps.
  At two channels and delay 1 the array is \<^verbatim>\<open>float h[5]\<close> and the Kaiser designer is
  asked for five taps, not four.
\<close>

theorem firpfbch_design_length_counterexample:
  "firpfbch_design ref_liquid 2 1 (3 / 10) (FIRPFBCH_NYQUIST ref_liquid) = Inr [1, 2, 3, 4, 5]
   \<and> length [1, 2, 3, 4, 5 :: real] \<noteq> 2 * 1 * 2"
  by (simp add: run_simps)

text \<open>
  Claim C6, as amended. \<^verbatim>\<open>firpfbch_create\<close> detects a delay \<open>m < 1\<close> and, when the
  delay is at least 1, an unsupported filter kind, and on either one it fails (the
  source prints a diagnostic and calls \<^verbatim>\<open>exit(1)\<close>) instead of building a
  channelizer. For every configuration with at least one channel, \<open>m \<ge> 1\<close> and a
  recognised kind it returns an object.
\<close>

theorem firpfbch_create_errors:
  "(m < 1 \<longrightarrow> firpfbch_create e nc m b nyq ty = Inl InvalidFilterDelay) \<and>
   (1 \<le> m \<and> nyq \<noteq> FIRPFBCH_NYQUIST e \<and> nyq \<noteq> FIRPFBCH_ROOTNYQUIST e \<longrightarrow>
      firpfbch_create e nc m b nyq ty = Inl (UnsupportedNyquistFlag nyq)) \<and>
   (1 \<le> m \<and> (nyq = FIRPFBCH_NYQUIST e \<or> nyq = FIRPFBCH_ROOTNYQUIST e) \<and> 0 < nc \<longrightarrow>
      (\<exists>c. firpfbch_create e nc m b nyq ty = Inr c))"
  by (auto simp: firpfbch_create_def firpfbch_design_def Let_def)

text \<open>The three cases at two channels: delay 0, kind 5, and a valid configuration.\<close>

theorem firpfbch_create_errors_witness:
  "firpfbch_create ref_liquid 2 0 (3 / 10) 0 1 = Inl InvalidFilterDelay \<and>
   firpfbch_create ref_liquid 2 1 (3 / 10) 5 1 = Inl (UnsupportedNyquistFlag 5) \<and>
   firpfbch_create ref_liquid 2 1 (3 / 10) 0 1 =
     Inr \<lparr>c_num_channels = 2, c_m = 1, c_beta = 3 / 10, c_x = [0, 0], c_X = [0, 0],
          c_bank = [\<lparr>fir_h = [1, 3], fir_w = [0, 0]\<rparr>, \<lparr>fir_h = [2, 4], fir_w = [0, 0]\<rparr>],
          c_nyquist = 0, c_type = 1\<rparr>"
  using firpfbch_create_errors[of 0 ref_liquid 2 "3 / 10" 0 1]
    firpfbch_create_errors[of 1 ref_liquid 2 "3 / 10" 5 1]
    firpfbch_create_errors[of 1 ref_liquid 2 "3 / 10" 0 1]
  by (simp add: run_simps)

text \<open>
  The claim as the spec states it promises an object for every configuration with
  \<open>m \<ge> 1\<close> and a recognised kind. With no channel, delay 1 and the Nyquist kind the
  source passes both checks and then computes \<^verbatim>\<open>h_len / c->num_channels\<close>, a division
  by zero.
\<close>

theorem firpfbch_create_errors_counterexample:
  "(1::nat) \<le> 1 \<and> 0 = FIRPFBCH_NYQUIST ref_liquid \<and>
   firpfbch_create ref_liquid 0 1 (1 / 2) 0 1 = Inl DivisionByZero"
  by (simp add: run_simps)




text \<open>
  Claim C8. In either mode, two objects with the same number of channels, the same mode
  and the same filters (the same taps and the same delay lines, for instance both just
  cleared), fed the same sequence of input blocks, produce the same sequence of output
  blocks, whatever their buffers and the callers' output arrays held before.
\<close>

theorem firpfbch_run_deterministic:
  assumes "list_all2 (\<lambda>(x1, y1) (x2, y2). x1 = x2 \<and> length x1 = c_num_channels c1 \<and>
              length y1 = c_num_channels c1 \<and> length y2 = c_num_channels c1) calls1 calls2"
    and "firpfbch_same_filters c1 c2" and "firpfbch_allocated c1" and "firpfbch_allocated c2"
  shows "firpfbch_run e c1 calls1 = firpfbch_run e c2 calls2"
proof -
  have run: "firpfbch_run e a as = firpfbch_run e b bs"
    if "list_all2 (\<lambda>(x1, y1) (x2, y2). x1 = x2 \<and> length x1 = n \<and>
              length y1 = n \<and> length y2 = n) as bs"
      and "c_num_channels a = n"
      and "firpfbch_same_filters a b" and "firpfbch_allocated a" and "firpfbch_allocated b"
    for n as bs and a b :: "'a firpfbch_s"
    using that
  proof (induction as arbitrary: bs a b)
    case Nil
    then show ?case by simp
  next
    case (Cons call1 as)
    obtain xin yout1 where call1: "call1 = (xin, yout1)" by (cases call1)
    obtain call2 rest where bs: "bs = call2 # rest"
      using Cons.prems(1) by (cases bs) simp_all
    obtain xin2 yout2 where call2: "call2 = (xin2, yout2)" by (cases call2)
    have same: "xin2 = xin" and len: "length xin = c_num_channels a"
      "length yout1 = c_num_channels a" "length yout2 = c_num_channels a"
      and rest: "list_all2 (\<lambda>(x1, y1) (x2, y2). x1 = x2 \<and> length x1 = n \<and>
                length y1 = n \<and> length y2 = n) as rest"
      using Cons.prems(1,2) call1 call2 bs by auto
    note step = firpfbch_execute_buffers[OF Cons.prems(3,4,5) len, of e]
    obtain a' y1 where r1: "firpfbch_execute e a xin yout1 = (a', y1)"
      by (cases "firpfbch_execute e a xin yout1")
    obtain b' y2 where r2: "firpfbch_execute e b xin yout2 = (b', y2)"
      by (cases "firpfbch_execute e b xin yout2")
    have y: "y1 = y2" and rel: "firpfbch_same_filters a' b'"
      and al: "firpfbch_allocated a'" "firpfbch_allocated b'"
      and nc: "c_num_channels a' = n"
      using step r1 r2 Cons.prems(2) by simp_all
    have "firpfbch_run e a' as = firpfbch_run e b' rest"
      by (rule Cons.IH[OF rest nc rel al])
    then show ?case
      by (simp add: call1 call2 bs same r1 r2 y)
  qed
  show ?thesis
    by (rule run[OF assms(1) refl assms(2,3,4)])
qed

text \<open>
  The theorem on two synthesizer objects that differ in both buffers, each fed the
  blocks \<open>[1, 0]\<close> and \<open>[0, 1]\<close> into output arrays with different contents.
\<close>

theorem firpfbch_run_deterministic_witness:
  "list_all2 (\<lambda>(x1, y1) (x2, y2). x1 = x2 \<and> length x1 = 2 \<and> length y1 = 2 \<and> length y2 = 2)
     [([1, 0], [0, 0]), ([0, 1 :: complex], [0, 0 :: complex])]
     [([1, 0], [5, 5]), ([0, 1], [6, 6])] \<and>
   firpfbch_same_filters
     \<lparr>c_num_channels = 2, c_m = 1, c_beta = 3 / 10, c_x = [0, 0], c_X = [0, 0],
      c_bank = [\<lparr>fir_h = [1, 3], fir_w = [0, 0]\<rparr>, \<lparr>fir_h = [2, 4], fir_w = [0, 0]\<rparr>],
      c_nyquist = 0, c_type = 1\<rparr>
     \<lparr>c_num_channels = 2, c_m = 1, c_beta = 3 / 10, c_x = [7, 7], c_X = [9, 9],
      c_bank = [\<lparr>fir_h = [1, 3], fir_w = [0, 0]\<rparr>, \<lparr>fir_h = [2, 4], fir_w = [0, 0]\<rparr>],
      c_nyquist = 0, c_type = 1\<rparr> \<and>
   firpfbch_run ref_liquid
     \<lparr>c_num_channels = 2, c_m = 1, c_beta = 3 / 10, c_x = [0, 0], c_X = [0, 0],
      c_bank = [\<lparr>fir_h = [1, 3], fir_w = [0, 0]\<rparr>, \<lparr>fir_h = [2, 4], fir_w = [0, 0]\<rparr>],
      c_nyquist = 0, c_type = 1\<rparr>
     [([1, 0], [0, 0]), ([0, 1], [0, 0])] = [[1 / 2, 1], [2, 1]] \<and>
   firpfbch_run ref_liquid
     \<lparr>c_num_channels = 2, c_m = 1, c_beta = 3 / 10, c_x = [7, 7], c_X = [9, 9],
      c_bank = [\<lparr>fir_h = [1, 3], fir_w = [0, 0]\<rparr>, \<lparr>fir_h = [2, 4], fir_w = [0, 0]\<rparr>],
      c_nyquist = 0, c_type = 1\<rparr>
     [([1, 0], [5, 5]), ([0, 1], [6, 6])] = [[1 / 2, 1], [2, 1]]"
  using firpfbch_run_deterministic[of
     "\<lparr>c_num_channels = 2, c_m = 1, c_beta = 3 / 10, c_x = [0, 0], c_X = [0, 0],
      c_bank = [\<lparr>fir_h = [1, 3], fir_w = [0, 0]\<rparr>, \<lparr>fir_h = [2, 4], fir_w = [0, 0]\<rparr>],
      c_nyquist = 0, c_type = 1\<rparr>"
     "[([1, 0], [0, 0]), ([0, 1], [0, 0])]" "[([1, 0], [5, 5]), ([0, 1], [6, 6])]"
     "\<lparr>c_num_channels = 2, c_m = 1, c_beta = 3 / 10, c_x = [7, 7], c_X = [9, 9],
      c_bank = [\<lparr>fir_h = [1, 3], fir_w = [0, 0]\<rparr>, \<lparr>fir_h = [2, 4], fir_w = [0, 0]\<rparr>],
      c_nyquist = 0, c_type = 1\<rparr>" ref_liquid]
  by (simp add: run_simps firpfbch_allocated_def firpfbch_same_filters_def)

text \<open>
  Claim C9. \<^verbatim>\<open>firpfbch_execute\<close> runs the analyzer path exactly when the stored type
  is the analyzer constant; for every other type, values that are neither mode constant
  among them, it runs the synthesizer path. \<^verbatim>\<open>firpfbch_create\<close> stores the type it
  is given, and whether it succeeds does not depend on the type.
\<close>

theorem firpfbch_execute_dispatch:
  "(c_type c = FIRPFBCH_ANALYZER e \<longrightarrow>
      firpfbch_execute e c xin yout = firpfbch_analyzer_execute e c xin yout) \<and>
   (c_type c \<noteq> FIRPFBCH_ANALYZER e \<longrightarrow>
      firpfbch_execute e c xin yout = firpfbch_synthesizer_execute e c xin yout) \<and>
   (\<forall>c'. firpfbch_create e nc m b nyq ty = Inr c' \<longrightarrow> c_type c' = ty) \<and>
   ((\<exists>c'. firpfbch_create e nc m b nyq ty = Inr c') \<longleftrightarrow>
      1 \<le> m \<and> (nyq = FIRPFBCH_NYQUIST e \<or> nyq = FIRPFBCH_ROOTNYQUIST e) \<and> 0 < nc)"
  by (auto simp: firpfbch_execute_def firpfbch_create_def firpfbch_design_def Let_def
      split: if_splits sum.splits)

text \<open>
  The theorem at type 7, which is neither constant of the instance: the object is
  created (with the analyzer's branches), and a call on it is a synthesizer call.
\<close>

theorem firpfbch_execute_dispatch_witness:
  "(7::int) \<noteq> FIRPFBCH_ANALYZER ref_liquid \<and> 7 \<noteq> FIRPFBCH_SYNTHESIZER ref_liquid \<and>
   firpfbch_create ref_liquid 2 1 (3 / 10) 0 7 =
     Inr \<lparr>c_num_channels = 2, c_m = 1, c_beta = 3 / 10, c_x = [0, 0], c_X = [0, 0],
          c_bank = [\<lparr>fir_h = [0, 2, 4], fir_w = [0, 0, 0]\<rparr>, \<lparr>fir_h = [0, 3, 5], fir_w = [0, 0, 0]\<rparr>],
          c_nyquist = 0, c_type = 7\<rparr> \<and>
   firpfbch_execute ref_liquid
     \<lparr>c_num_channels = 2, c_m = 1, c_beta = 3 / 10, c_x = [0, 0], c_X = [0, 0],
      c_bank = [\<lparr>fir_h = [0, 2, 4], fir_w = [3, 0, 0]\<rparr>, \<lparr>fir_h = [0, 3, 5], fir_w = [4, 0, 0]\<rparr>],
      c_nyquist = 0, c_type = 7\<rparr> [1, 0] [0, 0] =
   firpfbch_synthesizer_execute ref_liquid
     \<lparr>c_num_channels = 2, c_m = 1, c_beta = 3 / 10, c_x = [0, 0], c_X = [0, 0],
      c_bank = [\<lparr>fir_h = [0, 2, 4], fir_w = [3, 0, 0]\<rparr>, \<lparr>fir_h = [0, 3, 5], fir_w = [4, 0, 0]\<rparr>],
      c_nyquist = 0, c_type = 7\<rparr> [1, 0] [0, 0] \<and>
   snd (firpfbch_execute ref_liquid
     \<lparr>c_num_channels = 2, c_m = 1, c_beta = 3 / 10, c_x = [0, 0], c_X = [0, 0],
      c_bank = [\<lparr>fir_h = [0, 2, 4], fir_w = [3, 0, 0]\<rparr>, \<lparr>fir_h = [0, 3, 5], fir_w = [4, 0, 0]\<rparr>],
      c_nyquist = 0, c_type = 7\<rparr> [1, 0] [0, 0]) = [3, 6]"
  using firpfbch_execute_dispatch[of
      "\<lparr>c_num_channels = 2, c_m = 1, c_beta = 3 / 10, c_x = [0, 0], c_X = [0, 0],
        c_bank = [\<lparr>fir_h = [0, 2, 4], fir_w = [3, 0, 0]\<rparr>, \<lparr>fir_h = [0, 3, 5], fir_w = [4, 0, 0]\<rparr>],
        c_nyquist = 0, c_type = 7\<rparr>" ref_liquid "[1, 0]" "[0, 0]" 2 1 "3 / 10" 0 7]
  by (simp add: run_simps)

text \<open>
  Claim C10, as amended. For every configuration with \<open>m \<ge> 1\<close>, at least one
  channel, a recognised kind and \<open>2 * m * M\<close> below \<open>2 ^ 32\<close>, and with the analyzer
  and synthesizer constants two different values, \<^verbatim>\<open>firpfbch_create\<close> designs a
  prototype of \<open>2 * m * M + 1\<close> taps and builds its bank from it, and the two modes
  read different windows of it. In Synthesizer mode the bank is the same
  for any two prototypes that agree on the indices \<open>0\<close> to \<open>2 * m * M - 1\<close> (the last
  tap is never used), and every tap \<open>k\<close> of that window sits in branch \<open>k mod M\<close> at
  position \<open>k div M\<close>. In Analyzer mode the bank is the same for any two prototypes
  that agree on the indices \<open>1\<close> to \<open>2 * m * M\<close> (tap 0 is never used), every tap
  \<open>k\<close> of that window sits in branch \<open>(k - 1) mod M\<close> at position
  \<open>(k - 1) div M + 1\<close>, and position 0 holds the inserted zero.
\<close>

theorem firpfbch_create_tap_window:
  assumes "1 \<le> m" and "0 < nc" and "2 * m * nc < 2 ^ 32"
    and "firpfbch_design e nc m b nyq = Inr h"
    and "FIRPFBCH_ANALYZER e \<noteq> FIRPFBCH_SYNTHESIZER e"
  shows "length h = 2 * m * nc + 1 \<and>
     (\<exists>c. firpfbch_create e nc m b nyq ty = Inr c \<and>
           c_bank c = firpfbch_create_bank e nc (2 * m * nc) ty h) \<and>
     (ty = FIRPFBCH_SYNTHESIZER e \<longrightarrow>
        (\<forall>h'. (\<forall>k < 2 * m * nc. h' ! k = h ! k) \<longrightarrow>
           firpfbch_create_bank e nc (2 * m * nc) ty h' = firpfbch_create_bank e nc (2 * m * nc) ty h) \<and>
        (\<forall>k < 2 * m * nc. \<exists>branch.
           firpfbch_create_bank e nc (2 * m * nc) ty h ! (k mod nc) =
             fir_filter_crcf_create e branch (2 * m) \<and>
           branch ! (k div nc) = h ! k)) \<and>
     (ty = FIRPFBCH_ANALYZER e \<longrightarrow>
        (\<forall>h'. (\<forall>k. 1 \<le> k \<and> k \<le> 2 * m * nc \<longrightarrow> h' ! k = h ! k) \<longrightarrow>
           firpfbch_create_bank e nc (2 * m * nc) ty h' = firpfbch_create_bank e nc (2 * m * nc) ty h) \<and>
        (\<forall>k. 1 \<le> k \<and> k \<le> 2 * m * nc \<longrightarrow> (\<exists>branch.
           firpfbch_create_bank e nc (2 * m * nc) ty h ! ((k - 1) mod nc) =
             fir_filter_crcf_create e branch (2 * m + 1) \<and>
           branch ! 0 = 0 \<and> branch ! ((k - 1) div nc + 1) = h ! k)))"
proof -
  let ?L = "2 * m * nc"
  have L: "firpfbch_h_len nc m = ?L"
    by (rule firpfbch_h_len_small[OF assms(3)])
  have sub: "?L div nc = 2 * m"
    using assms(2) by simp
  have len: "length h = ?L + 1"
    using firpfbch_design_length_aux[OF assms(4)] L by simp
  have cr: "\<exists>c. firpfbch_create e nc m b nyq ty = Inr c \<and>
        c_bank c = firpfbch_create_bank e nc ?L ty h"
    using firpfbch_create_Inr[OF assms(4) assms(2), of ty] L by simp
  have idx: "i + n * nc < ?L" if "i < nc" "n < 2 * m" for i n
    using tap_index_less[OF that] by (simp add: mult.commute mult.left_commute)
  have syn_frame: "firpfbch_create_bank e nc ?L ty h' = firpfbch_create_bank e nc ?L ty h"
    if "ty = FIRPFBCH_SYNTHESIZER e" "\<forall>k < ?L. h' ! k = h ! k" for h'
  proof (rule firpfbch_create_bank_synthesizer_cong[OF that(1)])
    fix i n assume "i < nc" "n < ?L div nc"
    then have "i + n * nc < ?L" using idx[of i n] sub by simp
    then show "h' ! (i + n * nc) = h ! (i + n * nc)" using that(2) by blast
  qed
  have syn_used: "\<exists>branch. firpfbch_create_bank e nc ?L ty h ! (k mod nc) =
        fir_filter_crcf_create e branch (2 * m) \<and> branch ! (k div nc) = h ! k"
    if "ty = FIRPFBCH_SYNTHESIZER e" "k < ?L" for k
  proof -
    have "k div nc < 2 * m"
      using that(2) by (simp add: less_mult_imp_div_less)
    then show ?thesis
      using that(1) assms(2)
      by (intro exI[of _ "map (\<lambda>n. h ! (k mod nc + n * nc)) [0..<2 * m]"])
         (simp add: firpfbch_create_bank_synthesizer sub)
  qed
  have ana_frame: "firpfbch_create_bank e nc ?L ty h' = firpfbch_create_bank e nc ?L ty h"
    if "ty = FIRPFBCH_ANALYZER e" "\<forall>k. 1 \<le> k \<and> k \<le> ?L \<longrightarrow> h' ! k = h ! k" for h'
  proof (rule firpfbch_create_bank_analyzer_cong)
    show "ty \<noteq> FIRPFBCH_SYNTHESIZER e" using that(1) assms(5) by simp
    fix i n assume "i < nc" "n < ?L div nc"
    then have "i + n * nc < ?L" using idx[of i n] sub by simp
    then have "1 \<le> i + 1 + n * nc \<and> i + 1 + n * nc \<le> ?L" by simp
    then show "h' ! (i + 1 + n * nc) = h ! (i + 1 + n * nc)" using that(2) by blast
  qed
  have ana_used: "\<exists>branch. firpfbch_create_bank e nc ?L ty h ! ((k - 1) mod nc) =
        fir_filter_crcf_create e branch (2 * m + 1) \<and> branch ! 0 = 0 \<and>
        branch ! ((k - 1) div nc + 1) = h ! k"
    if "ty = FIRPFBCH_ANALYZER e" "1 \<le> k" "k \<le> ?L" for k
  proof -
    have "k - 1 < ?L" using that by simp
    then have d: "(k - 1) div nc < 2 * m"
      by (simp add: less_mult_imp_div_less)
    have k: "(k - 1) mod nc + 1 + (k - 1) div nc * nc = k"
      using that(2) by simp
    show ?thesis
      using that(1) assms(2,5) d k
      by (intro exI[of _ "0 # map (\<lambda>n. h ! ((k - 1) mod nc + 1 + n * nc)) [0..<2 * m]"])
         (simp add: firpfbch_create_bank_analyzer sub)
  qed
  show ?thesis
    apply (intro conjI impI allI)
    subgoal by (rule len)
    subgoal by (rule cr)
    subgoal for h' using syn_frame by blast
    subgoal for k using syn_used by blast
    subgoal for h' using ana_frame by blast
    subgoal for k using ana_used by blast
    done
qed

text \<open>
  The theorem at two channels and delay 1: changing the last of the five taps leaves
  the synthesizer bank as it is, and changing the first leaves the analyzer bank as it
  is.
\<close>

theorem firpfbch_create_tap_window_witness:
  "(1::nat) \<le> 1 \<and> (0::nat) < 2 \<and> (2 * 1 * 2 :: nat) < 2 ^ 32 \<and>
   FIRPFBCH_ANALYZER ref_liquid \<noteq> FIRPFBCH_SYNTHESIZER ref_liquid \<and>
   firpfbch_design ref_liquid 2 1 (3 / 10) 0 = Inr [1, 2, 3, 4, 5] \<and>
   length [1, 2, 3, 4, 5 :: real] = 2 * 1 * 2 + 1 \<and>
   firpfbch_create_bank ref_liquid 2 (2 * 1 * 2) (FIRPFBCH_SYNTHESIZER ref_liquid) [1, 2, 3, 4, 99] =
     firpfbch_create_bank ref_liquid 2 (2 * 1 * 2) (FIRPFBCH_SYNTHESIZER ref_liquid) [1, 2, 3, 4, 5] \<and>
   firpfbch_create_bank ref_liquid 2 (2 * 1 * 2) (FIRPFBCH_ANALYZER ref_liquid) [99, 2, 3, 4, 5] =
     firpfbch_create_bank ref_liquid 2 (2 * 1 * 2) (FIRPFBCH_ANALYZER ref_liquid) [1, 2, 3, 4, 5]"
proof -
  have h1: "(1::nat) \<le> 1" and h2: "(0::nat) < 2" and h3: "(2 * 1 * 2 :: nat) < 2 ^ 32"
    by simp_all
  have d: "firpfbch_design ref_liquid 2 1 (3 / 10) 0 = Inr [1, 2, 3, 4, 5]"
    by (simp add: run_simps)
  have a: "FIRPFBCH_ANALYZER ref_liquid \<noteq> FIRPFBCH_SYNTHESIZER ref_liquid"
    by (simp add: ref_liquid_def)
  have s: "\<forall>k < 2 * 1 * 2. [1, 2, 3, 4, 99 :: real] ! k = [1, 2, 3, 4, 5] ! k"
    by (simp add: less_Suc_eq numeral_eq_Suc)
  have z: "\<forall>k. 1 \<le> k \<and> k \<le> 2 * 1 * 2 \<longrightarrow> [99, 2, 3, 4, 5 :: real] ! k = [1, 2, 3, 4, 5] ! k"
    by (auto simp: nth_Cons')
  note w = firpfbch_create_tap_window[OF h1 h2 h3 d a]
  have ws: "firpfbch_create_bank ref_liquid 2 (2 * 1 * 2) (FIRPFBCH_SYNTHESIZER ref_liquid) [1, 2, 3, 4, 99] =
     firpfbch_create_bank ref_liquid 2 (2 * 1 * 2) (FIRPFBCH_SYNTHESIZER ref_liquid) [1, 2, 3, 4, 5]"
    using w[of "FIRPFBCH_SYNTHESIZER ref_liquid"] s by blast
  have wa: "firpfbch_create_bank ref_liquid 2 (2 * 1 * 2) (FIRPFBCH_ANALYZER ref_liquid) [99, 2, 3, 4, 5] =
     firpfbch_create_bank ref_liquid 2 (2 * 1 * 2) (FIRPFBCH_ANALYZER ref_liquid) [1, 2, 3, 4, 5]"
    using w[of "FIRPFBCH_ANALYZER ref_liquid"] z by blast
  show ?thesis
    using h1 h2 h3 d a ws wa by simp
qed

text \<open>
  The claim as stated gives the prototype \<open>2 * m * M + 1\<close> taps for every
  configuration. At two channels and delay \<open>2 ^ 31\<close> the 32-bit product
  \<^verbatim>\<open>2*m*M\<close> wraps to 0 and the prototype is the one-cell array \<^verbatim>\<open>float h[1]\<close>.
\<close>

theorem firpfbch_create_tap_window_counterexample:
  "firpfbch_design ref_liquid 2 2147483648 (3 / 10) 0 = Inr [1] \<and>
   length [1 :: real] \<noteq> 2 * 2147483648 * 2 + 1"
  by (simp add: run_simps)

end
